theory Spec2Isabelle
  imports Complex_Main
begin

section \<open>JavaScript values\<close>

text \<open>
  The handlers work on untyped JavaScript values: the decoded request body, the request
  objects handed to the payments client, the client's results and the response bodies.
  An object is its list of properties. A number is the rational value of the
  finite double.
\<close>

datatype jsval =
    JUndefined
  | JNull
  | JBool bool
  | JNum rat
  | JStr string
  | JArr "jsval list"
  | JObj "(string \<times> jsval) list"

datatype js_error =
    HttpError nat string \<comment> \<open>\<open>createError(statusCode, message)\<close> of micro\<close>
  | ApiError jsval \<comment> \<open>the client's \<open>ApiError\<close>, carrying \<open>ex.errors\<close>\<close>
  | ReferenceError string \<comment> \<open>an identifier that is not bound\<close>
  | TypeError string \<comment> \<open>a property read from \<open>undefined\<close> or \<open>null\<close>\<close>
  | Failure string \<comment> \<open>any other error (network, timeout, ...)\<close>

text \<open>\<open>ex instanceof ApiError\<close>\<close>

fun instanceof_ApiError :: "js_error \<Rightarrow> bool" where
  "instanceof_ApiError (ApiError _) = True"
| "instanceof_ApiError _ = False"

text \<open>
  \<open>obj.name\<close>: reading a property of \<open>undefined\<close> or \<open>null\<close> throws a TypeError, a
  property an object does not have reads \<open>undefined\<close>. None of the names this module
  reads is a built-in property of a string, a number, a boolean or an array.
\<close>

fun get_prop :: "jsval \<Rightarrow> string \<Rightarrow> js_error + jsval" where
  "get_prop JUndefined name = Inl (TypeError name)"
| "get_prop JNull name = Inl (TypeError name)"
| "get_prop (JObj props) name =
     Inr (case map_of props name of Some v \<Rightarrow> v | None \<Rightarrow> JUndefined)"
| "get_prop _ name = Inr JUndefined"

text \<open>\<open>obj[0]\<close>\<close>

fun get_index0 :: "jsval \<Rightarrow> js_error + jsval" where
  "get_index0 JUndefined = Inl (TypeError ''0'')"
| "get_index0 JNull = Inl (TypeError ''0'')"
| "get_index0 (JArr xs) = Inr (case xs of [] \<Rightarrow> JUndefined | x # _ \<Rightarrow> x)"
| "get_index0 (JStr s) = Inr (case s of [] \<Rightarrow> JUndefined | c # _ \<Rightarrow> JStr [c])"
| "get_index0 (JObj props) =
     Inr (case map_of props ''0'' of Some v \<Rightarrow> v | None \<Rightarrow> JUndefined)"
| "get_index0 _ = Inr JUndefined"

text \<open>Truthiness, as \<open>||\<close> and \<open>if\<close> test it.\<close>

fun truthy :: "jsval \<Rightarrow> bool" where
  "truthy JUndefined = False"
| "truthy JNull = False"
| "truthy (JBool b) = b"
| "truthy (JNum q) = (q \<noteq> 0)"
| "truthy (JStr s) = (s \<noteq> [])"
| "truthy (JArr _) = True"
| "truthy (JObj _) = True"

text \<open>Sequencing of computations that may throw.\<close>

fun and_then :: "js_error + 'a \<Rightarrow> ('a \<Rightarrow> js_error + 'b) \<Rightarrow> js_error + 'b" where
  "and_then (Inl ex) f = Inl ex"
| "and_then (Inr v) f = f v"

text \<open>\<open>obj.a.b\<close>\<close>

definition get_path :: "jsval \<Rightarrow> string \<Rightarrow> string \<Rightarrow> js_error + jsval" where
  "get_path obj a b = and_then (get_prop obj a) (\<lambda>inner. get_prop inner b)"

section \<open>Schema validation (\<open>src/server/schema.js\<close>)\<close>

datatype jtd_type = T_string | T_uint32

record schema =
  properties :: "(string \<times> jtd_type) list"
  optionalProperties :: "(string \<times> jtd_type) list"

definition paymentSchema :: schema where
  "paymentSchema = \<lparr>
     properties = [(''sourceId'', T_string), (''locationId'', T_string)],
     optionalProperties =
       [(''amount'', T_uint32), (''idempotencyKey'', T_string),
        (''verificationToken'', T_string)] \<rparr>"

definition searchCustomerSchema :: schema where
  "searchCustomerSchema = \<lparr>
     properties = [(''emailAddress'', T_string)],
     optionalProperties = [] \<rparr>"

definition listCardsSchema :: schema where
  "listCardsSchema = \<lparr>
     properties = [(''customerId'', T_string)],
     optionalProperties = [] \<rparr>"

definition cardSchema :: schema where
  "cardSchema = \<lparr>
     properties =
       [(''expMonth'', T_uint32), (''expYear'', T_uint32),
        (''cardHolderName'', T_string), (''customerId'', T_string),
        (''idempotencyKey'', T_string), (''sourceId'', T_string),
        (''verificationToken'', T_string)],
     optionalProperties = [] \<rparr>"

text \<open>
  Modelled from the spec: \<open>ajv.compile\<close> of the ajv library, which is not among the
  sources. Section 4.1: each required field has a primitive type constraint (string,
  or non-negative bounded integer, here \<open>uint32\<close>); validation fails if a required
  field is missing or wrong-typed, or if a present optional field is wrong-typed. The
  spec has unknown extra fields ignored, while a JSON Type Definition schema without
  \<open>additionalProperties\<close> rejects them: \<open>extras\<close> says whether they are accepted,
  and every result below holds for both values.
\<close>

fun has_type :: "jtd_type \<Rightarrow> jsval \<Rightarrow> bool" where
  "has_type T_string (JStr _) = True"
| "has_type T_uint32 (JNum q) = (of_int \<lfloor>q\<rfloor> = q \<and> 0 \<le> q \<and> q \<le> 4294967295)"
| "has_type _ _ = False"

definition required_ok :: "(string \<times> jsval) list \<Rightarrow> string \<times> jtd_type \<Rightarrow> bool" where
  "required_ok props field =
     (case map_of props (fst field) of None \<Rightarrow> False | Some v \<Rightarrow> has_type (snd field) v)"

definition optional_ok :: "(string \<times> jsval) list \<Rightarrow> string \<times> jtd_type \<Rightarrow> bool" where
  "optional_ok props field =
     (case map_of props (fst field) of None \<Rightarrow> True | Some v \<Rightarrow> has_type (snd field) v)"

definition known_field :: "schema \<Rightarrow> string \<Rightarrow> bool" where
  "known_field s name =
     (name \<in> set (map fst (properties s)) \<or> name \<in> set (map fst (optionalProperties s)))"

fun compile :: "bool \<Rightarrow> schema \<Rightarrow> jsval \<Rightarrow> bool" where
  "compile extras s (JObj props) =
     (list_all (required_ok props) (properties s) \<and>
      list_all (optional_ok props) (optionalProperties s) \<and>
      (extras \<or> list_all (known_field s) (map fst props)))"
| "compile extras s _ = False"

text \<open>The four validators the schema module exports.\<close>

definition validatePaymentPayload :: "bool \<Rightarrow> jsval \<Rightarrow> bool" where
  "validatePaymentPayload extras = compile extras paymentSchema"

definition validateSearchCustomerPayload :: "bool \<Rightarrow> jsval \<Rightarrow> bool" where
  "validateSearchCustomerPayload extras = compile extras searchCustomerSchema"

definition validateListCardsPayload :: "bool \<Rightarrow> jsval \<Rightarrow> bool" where
  "validateListCardsPayload extras = compile extras listCardsSchema"

definition validateCardPayload :: "bool \<Rightarrow> jsval \<Rightarrow> bool" where
  "validateCardPayload extras = compile extras cardSchema"

section \<open>Effects of a request\<close>

text \<open>
  What a handler does besides returning: the calls it makes to the payments client, the
  identifiers it draws from \<open>nanoid\<close>, the responses it writes with \<open>send\<close> and the
  lines it logs.
\<close>

datatype api_op =
    PaymentsApi_createPayment
  | CardsApi_createCard
  | CardsApi_listCards
  | CustomersApi_searchCustomers

datatype log_entry =
    Debug_payload jsval \<comment> \<open>\<open>logger.debug(JSON.stringify(payload))\<close>\<close>
  | Debug_attempt string nat \<comment> \<open>\<open>logger.debug(message, { attempt })\<close>\<close>
  | Info_result string jsval nat \<comment> \<open>\<open>logger.info(message, { result, statusCode })\<close>\<close>
  | Error_errors jsval \<comment> \<open>\<open>logger.error(ex.errors)\<close>\<close>
  | Error_attempt string nat js_error \<comment> \<open>\<open>logger.error(`... on attempt ${attempt}: ${ex}`)\<close>\<close>

record world =
  api_calls :: "(api_op \<times> jsval) list"
  ids_drawn :: nat
  sent :: "(nat \<times> jsval) list"
  logged :: "log_entry list"

record api_response =
  result :: jsval
  statusCode :: nat

text \<open>
  The collaborators of the module. The payments client answers a call from the calls made
  before it, the operation and the request: it returns \<open>{result, statusCode}\<close> or throws.
  \<open>nanoid_ids n\<close> is the identifier the \<open>n\<close>-th call of \<open>nanoid()\<close> returns.
  \<open>max_attempts\<close> is the attempt limit of the retry library and \<open>ajv_extras\<close> the
  validator's treatment of unknown fields.
\<close>

record env =
  square :: "(api_op \<times> jsval) list \<Rightarrow> api_op \<Rightarrow> jsval \<Rightarrow> js_error + api_response"
  nanoid_ids :: "nat \<Rightarrow> string"
  max_attempts :: nat
  ajv_extras :: bool

definition logger :: "log_entry \<Rightarrow> world \<Rightarrow> world" where
  "logger entry w = w\<lparr>logged := logged w @ [entry]\<rparr>"

definition nanoid :: "env \<Rightarrow> world \<Rightarrow> jsval \<times> world" where
  "nanoid e w = (JStr (nanoid_ids e (ids_drawn w)), w\<lparr>ids_drawn := Suc (ids_drawn w)\<rparr>)"

definition call_api :: "env \<Rightarrow> api_op \<Rightarrow> jsval \<Rightarrow> world \<Rightarrow> (js_error + api_response) \<times> world" where
  "call_api e op request w =
     (square e (api_calls w) op request, w\<lparr>api_calls := api_calls w @ [(op, request)]\<rparr>)"

definition send :: "nat \<Rightarrow> jsval \<Rightarrow> world \<Rightarrow> world" where
  "send code body w = w\<lparr>sent := sent w @ [(code, body)]\<rparr>"

text \<open>\<open>a || nanoid()\<close>\<close>

definition or_nanoid :: "env \<Rightarrow> jsval \<Rightarrow> world \<Rightarrow> jsval \<times> world" where
  "or_nanoid e given w = (if truthy given then (given, w) else nanoid e w)"

subsection \<open>Names bound in the module\<close>

text \<open>
  The identifiers the module binds (its \<open>require\<close> lines 2 to 16 and its function
  declarations) and the globals of the runtime it uses. Evaluating any other identifier
  throws a ReferenceError. The handlers below resolve the two names that differ from one
  handler to the next, the validator each calls and the client each attempt calls; the
  other names they use are the same in all four and are bound.
\<close>

definition module_scope :: "string list" where
  "module_scope =
     [''createError'', ''json'', ''send'', ''router'', ''get'', ''post'', ''staticHandler'',
      ''retry'', ''logger'', ''validatePaymentPayload'', ''ApiError'', ''square'', ''nanoid'',
      ''createPayment'', ''createCard'', ''listCards'', ''searchCustomers'', ''serveStatic'',
      ''require'', ''module'', ''JSON'']"

definition resolve :: "string \<Rightarrow> js_error + unit" where
  "resolve name = (if name \<in> set module_scope then Inr () else Inl (ReferenceError name))"

subsection \<open>The retry executor\<close>

text \<open>
  What one run of the attempt function did: it returned, it called \<open>bail(ex)\<close> and
  returned, or it threw.
\<close>

datatype attempt_outcome = Resolved | Bailed js_error | Thrown js_error

type_synonym attempt_fn = "nat \<Rightarrow> world \<Rightarrow> attempt_outcome \<times> world"

text \<open>
  Modelled from the spec: \<open>retry\<close> of the async-retry library, which is not among the
  sources. Section 4.2: the operation is invoked with the current 1-based attempt
  number; if it completes normally the executor returns and performs no further attempt;
  if it signals bail the executor stops immediately and the call resolves to that
  failure; any other failure is retried with the attempt number incremented, unless the
  maximum attempt count has been reached, in which case the last failure is the overall
  result. The first attempt always runs: the limit is looked at after a failure. The
  backoff delay between attempts is not modelled.
\<close>

function retry_from :: "nat \<Rightarrow> nat \<Rightarrow> attempt_fn \<Rightarrow> world \<Rightarrow> (js_error + unit) \<times> world" where
  "retry_from limit attempt fn w =
     (let r = fn attempt w in
      case fst r of
        Resolved \<Rightarrow> (Inr (), snd r)
      | Bailed ex \<Rightarrow> (Inl ex, snd r)
      | Thrown ex \<Rightarrow>
          if attempt < limit then retry_from limit (Suc attempt) fn (snd r)
          else (Inl ex, snd r))"
  by pat_completeness auto
termination
  by (relation "measure (\<lambda>(limit, attempt, fn, w). limit - attempt)") auto

declare retry_from.simps [simp del]

definition retry :: "nat \<Rightarrow> attempt_fn \<Rightarrow> world \<Rightarrow> (js_error + unit) \<times> world" where
  "retry limit fn w = retry_from limit 1 fn w"

text \<open>The \<open>catch (ex)\<close> block, the same in the four handlers but for its message.\<close>

fun errors_of :: "js_error \<Rightarrow> jsval" where
  "errors_of (ApiError errs) = errs"
| "errors_of _ = JUndefined"

fun catch_block :: "string \<Rightarrow> nat \<Rightarrow> (js_error + unit) \<times> world \<Rightarrow> attempt_outcome \<times> world" where
  "catch_block message attempt (Inr _, w) = (Resolved, w)"
| "catch_block message attempt (Inl ex, w) =
     (if instanceof_ApiError ex then (Bailed ex, logger (Error_errors (errors_of ex)) w)
      else (Thrown ex, logger (Error_attempt message attempt ex) w))"

section \<open>The request handlers\<close>

text \<open>
  Each handler takes the decoded body (\<open>await json(req)\<close>) and returns what its promise
  settles to: \<open>Inr ()\<close> when it resolves, \<open>Inl ex\<close> when it rejects with \<open>ex\<close>.
\<close>

subsection \<open>\<open>createPayment\<close>\<close>

definition payment_object :: "jsval \<Rightarrow> jsval \<Rightarrow> js_error + jsval" where
  "payment_object payload idempotencyKey =
     and_then (get_prop payload ''locationId'') (\<lambda>locationId.
     and_then (get_prop payload ''sourceId'') (\<lambda>sourceId.
     and_then (get_prop payload ''verificationToken'') (\<lambda>verificationToken.
       Inr (JObj
         ([(''idempotencyKey'', idempotencyKey),
           (''locationId'', locationId),
           (''sourceId'', sourceId),
           (''amountMoney'', JObj [(''amount'', JStr ''100''), (''currency'', JStr ''USD'')])]
          @ (if truthy verificationToken then [(''verificationToken'', verificationToken)]
             else []))))))"

definition payment_body :: "jsval \<Rightarrow> js_error + jsval" where
  "payment_body res =
     and_then (get_path res ''payment'' ''id'') (\<lambda>pid.
     and_then (get_path res ''payment'' ''status'') (\<lambda>status.
     and_then (get_path res ''payment'' ''receiptUrl'') (\<lambda>receiptUrl.
     and_then (get_path res ''payment'' ''orderId'') (\<lambda>orderId.
       Inr (JObj
         [(''success'', JBool True),
          (''payment'', JObj
             [(''id'', pid), (''status'', status),
              (''receiptUrl'', receiptUrl), (''orderId'', orderId)])])))))"

definition createPayment_try :: "env \<Rightarrow> jsval \<Rightarrow> nat \<Rightarrow> world \<Rightarrow> (js_error + unit) \<times> world" where
  "createPayment_try e payload attempt w =
     (let w1 = logger (Debug_attempt ''Creating payment'' attempt) w in
      case get_prop payload ''idempotencyKey'' of
        Inl ex \<Rightarrow> (Inl ex, w1)
      | Inr given \<Rightarrow>
          let k = or_nanoid e given w1 in
          (case payment_object payload (fst k) of
             Inl ex \<Rightarrow> (Inl ex, snd k)
           | Inr payment \<Rightarrow>
               (case resolve ''square'' of
                  Inl ex \<Rightarrow> (Inl ex, snd k)
                | Inr _ \<Rightarrow>
                    let c = call_api e PaymentsApi_createPayment payment (snd k) in
                    (case fst c of
                       Inl ex \<Rightarrow> (Inl ex, snd c)
                     | Inr response \<Rightarrow>
                         let w4 = logger (Info_result ''Payment succeeded!''
                                    (result response) (statusCode response)) (snd c) in
                         (case payment_body (result response) of
                            Inl ex \<Rightarrow> (Inl ex, w4)
                          | Inr body \<Rightarrow> (Inr (), send (statusCode response) body w4))))))"

definition createPayment_attempt :: "env \<Rightarrow> jsval \<Rightarrow> attempt_fn" where
  "createPayment_attempt e payload attempt w =
     catch_block ''Error creating payment on attempt'' attempt
       (createPayment_try e payload attempt w)"

definition createPayment :: "env \<Rightarrow> jsval \<Rightarrow> world \<Rightarrow> (js_error + unit) \<times> world" where
  "createPayment e payload w =
     (let w1 = logger (Debug_payload payload) w in
      case resolve ''validatePaymentPayload'' of
        Inl ex \<Rightarrow> (Inl ex, w1)
      | Inr _ \<Rightarrow>
          if \<not> validatePaymentPayload (ajv_extras e) payload
          then (Inl (HttpError 400 ''Bad Request''), w1)
          else retry (max_attempts e) (createPayment_attempt e payload) w1)"

subsection \<open>\<open>createCard\<close>\<close>

text \<open>The source reads \<open>payload.customerID\<close> for the card's \<open>customerId\<close>.\<close>

definition card_object :: "jsval \<Rightarrow> js_error + jsval" where
  "card_object payload =
     and_then (get_prop payload ''expMonth'') (\<lambda>expMonth.
     and_then (get_prop payload ''expYear'') (\<lambda>expYear.
     and_then (get_prop payload ''cardHolderName'') (\<lambda>cardHolderName.
     and_then (get_prop payload ''customerID'') (\<lambda>customerId.
       Inr (JObj
         [(''expMonth'', expMonth), (''expYear'', expYear),
          (''cardHolderName'', cardHolderName), (''customerId'', customerId)])))))"

definition cardRequest_object :: "jsval \<Rightarrow> jsval \<Rightarrow> jsval \<Rightarrow> js_error + jsval" where
  "cardRequest_object payload cardObj idempotencyKey =
     and_then (get_prop payload ''sourceId'') (\<lambda>sourceId.
     and_then (get_prop payload ''verificationToken'') (\<lambda>verificationToken.
       Inr (JObj
         [(''card'', cardObj), (''idempotencyKey'', idempotencyKey),
          (''sourceId'', sourceId), (''verificationToken'', verificationToken)])))"

definition card_body :: "jsval \<Rightarrow> js_error + jsval" where
  "card_body res =
     and_then (get_path res ''card'' ''id'') (\<lambda>cid.
       Inr (JObj [(''success'', JBool True), (''card'', JObj [(''id'', cid)])]))"

definition createCard_try :: "env \<Rightarrow> jsval \<Rightarrow> nat \<Rightarrow> world \<Rightarrow> (js_error + unit) \<times> world" where
  "createCard_try e payload attempt w =
     (let w1 = logger (Debug_attempt ''Creating card on file'' attempt) w in
      case card_object payload of
        Inl ex \<Rightarrow> (Inl ex, w1)
      | Inr cardObj \<Rightarrow>
          (case get_prop payload ''idempotencyKey'' of
             Inl ex \<Rightarrow> (Inl ex, w1)
           | Inr given \<Rightarrow>
               let k = or_nanoid e given w1 in
               (case cardRequest_object payload cardObj (fst k) of
                  Inl ex \<Rightarrow> (Inl ex, snd k)
                | Inr cardRequest \<Rightarrow>
                    (case resolve ''square'' of
                       Inl ex \<Rightarrow> (Inl ex, snd k)
                     | Inr _ \<Rightarrow>
                         let c = call_api e CardsApi_createCard cardRequest (snd k) in
                         (case fst c of
                            Inl ex \<Rightarrow> (Inl ex, snd c)
                          | Inr response \<Rightarrow>
                              let w4 = logger (Info_result ''Create card succeeded!''
                                         (result response) (statusCode response)) (snd c) in
                              (case card_body (result response) of
                                 Inl ex \<Rightarrow> (Inl ex, w4)
                               | Inr body \<Rightarrow>
                                   (Inr (), send (statusCode response) body w4)))))))"

definition createCard_attempt :: "env \<Rightarrow> jsval \<Rightarrow> attempt_fn" where
  "createCard_attempt e payload attempt w =
     catch_block ''Error creating payment on attempt'' attempt
       (createCard_try e payload attempt w)"

definition createCard :: "env \<Rightarrow> jsval \<Rightarrow> world \<Rightarrow> (js_error + unit) \<times> world" where
  "createCard e payload w =
     (let w1 = logger (Debug_payload payload) w in
      case resolve ''validateCardPayload'' of
        Inl ex \<Rightarrow> (Inl ex, w1)
      | Inr _ \<Rightarrow>
          if \<not> validateCardPayload (ajv_extras e) payload
          then (Inl (HttpError 400 ''Bad Request''), w1)
          else retry (max_attempts e) (createCard_attempt e payload) w1)"

subsection \<open>\<open>listCards\<close>\<close>

definition listCards_body :: "jsval \<Rightarrow> js_error + jsval" where
  "listCards_body res =
     and_then (get_index0 res) (\<lambda>first.
     and_then (get_prop first ''card'') (\<lambda>cardsResult.
     and_then (get_prop cardsResult ''id'') (\<lambda>cid.
     and_then (get_prop cardsResult ''cardBrand'') (\<lambda>cardBrand.
     and_then (get_prop cardsResult ''last4'') (\<lambda>last4.
       Inr (JObj
         [(''success'', JBool True),
          (''card'', JObj
             [(''id'', cid), (''card_brand'', cardBrand), (''last4'', last4)])]))))))"

definition listCards_try :: "env \<Rightarrow> jsval \<Rightarrow> nat \<Rightarrow> world \<Rightarrow> (js_error + unit) \<times> world" where
  "listCards_try e payload attempt w =
     (let w1 = logger (Debug_attempt ''Listing customer cards'' attempt) w in
      case resolve ''client'' of
        Inl ex \<Rightarrow> (Inl ex, w1)
      | Inr _ \<Rightarrow>
          (case get_prop payload ''customerId'' of
             Inl ex \<Rightarrow> (Inl ex, w1)
           | Inr customerId \<Rightarrow>
               let c = call_api e CardsApi_listCards customerId w1 in
               (case fst c of
                  Inl ex \<Rightarrow> (Inl ex, snd c)
                | Inr response \<Rightarrow>
                    let w4 = logger (Info_result ''Cards found!''
                               (result response) (statusCode response)) (snd c) in
                    (case listCards_body (result response) of
                       Inl ex \<Rightarrow> (Inl ex, w4)
                     | Inr body \<Rightarrow> (Inr (), send (statusCode response) body w4)))))"

definition listCards_attempt :: "env \<Rightarrow> jsval \<Rightarrow> attempt_fn" where
  "listCards_attempt e payload attempt w =
     catch_block ''Error searching for customer on attempt'' attempt
       (listCards_try e payload attempt w)"

definition listCards :: "env \<Rightarrow> jsval \<Rightarrow> world \<Rightarrow> (js_error + unit) \<times> world" where
  "listCards e payload w =
     (let w1 = logger (Debug_payload payload) w in
      case resolve ''validateListCardsPayload'' of
        Inl ex \<Rightarrow> (Inl ex, w1)
      | Inr _ \<Rightarrow>
          if \<not> validateListCardsPayload (ajv_extras e) payload
          then (Inl (HttpError 400 ''Bad Request''), w1)
          else retry (max_attempts e) (listCards_attempt e payload) w1)"

subsection \<open>\<open>searchCustomers\<close>\<close>

definition search_query :: "jsval \<Rightarrow> js_error + jsval" where
  "search_query payload =
     and_then (get_prop payload ''emailAddress'') (\<lambda>emailAddress.
       Inr (JObj
         [(''query'', JObj
            [(''filter'', JObj
               [(''emailAddress'', JObj [(''exact'', emailAddress)])])])]))"

definition searchCustomers_body :: "jsval \<Rightarrow> js_error + jsval" where
  "searchCustomers_body res =
     and_then (get_index0 res) (\<lambda>first.
     and_then (get_prop first ''customer'') (\<lambda>customerResult.
     and_then (get_prop customerResult ''id'') (\<lambda>cid.
     and_then (get_prop customerResult ''givenName'') (\<lambda>givenName.
     and_then (get_prop customerResult ''familyName'') (\<lambda>familyName.
       Inr (JObj
         [(''success'', JBool True),
          (''customer'', JObj
             [(''id'', cid), (''given_name'', givenName),
              (''family_name'', familyName)])]))))))"

definition searchCustomers_try :: "env \<Rightarrow> jsval \<Rightarrow> nat \<Rightarrow> world \<Rightarrow> (js_error + unit) \<times> world" where
  "searchCustomers_try e payload attempt w =
     (let w1 = logger (Debug_attempt ''Searching for customer'' attempt) w in
      case resolve ''client'' of
        Inl ex \<Rightarrow> (Inl ex, w1)
      | Inr _ \<Rightarrow>
          (case search_query payload of
             Inl ex \<Rightarrow> (Inl ex, w1)
           | Inr query \<Rightarrow>
               let c = call_api e CustomersApi_searchCustomers query w1 in
               (case fst c of
                  Inl ex \<Rightarrow> (Inl ex, snd c)
                | Inr response \<Rightarrow>
                    let w4 = logger (Info_result ''Customer found!''
                               (result response) (statusCode response)) (snd c) in
                    (case searchCustomers_body (result response) of
                       Inl ex \<Rightarrow> (Inl ex, w4)
                     | Inr body \<Rightarrow> (Inr (), send (statusCode response) body w4)))))"

definition searchCustomers_attempt :: "env \<Rightarrow> jsval \<Rightarrow> attempt_fn" where
  "searchCustomers_attempt e payload attempt w =
     catch_block ''Error searching for customer on attempt'' attempt
       (searchCustomers_try e payload attempt w)"

definition searchCustomers :: "env \<Rightarrow> jsval \<Rightarrow> world \<Rightarrow> (js_error + unit) \<times> world" where
  "searchCustomers e payload w =
     (let w1 = logger (Debug_payload payload) w in
      case resolve ''validateSearchCustomerPayload'' of
        Inl ex \<Rightarrow> (Inl ex, w1)
      | Inr _ \<Rightarrow>
          if \<not> validateSearchCustomerPayload (ajv_extras e) payload
          then (Inl (HttpError 400 ''Bad Request''), w1)
          else retry (max_attempts e) (searchCustomers_attempt e payload) w1)"

section \<open>The route table\<close>

datatype http_method = GET | POST

datatype handler = CreateCard | CreatePayment | ServeStatic | ListCards | SearchCustomers

record route =
  route_method :: http_method
  route_path :: string
  route_handler :: handler

text \<open>\<open>module.exports = router(...)\<close>, in the order of the source.\<close>

definition routes :: "route list" where
  "routes =
     [\<lparr>route_method = POST, route_path = ''/cof'', route_handler = CreateCard\<rparr>,
      \<lparr>route_method = POST, route_path = ''/payment'', route_handler = CreatePayment\<rparr>,
      \<lparr>route_method = GET, route_path = ''/*'', route_handler = ServeStatic\<rparr>,
      \<lparr>route_method = GET, route_path = ''/cards'', route_handler = ListCards\<rparr>,
      \<lparr>route_method = POST, route_path = ''/searchCustomer'',
        route_handler = SearchCustomers\<rparr>]"

text \<open>
  Modelled from the spec: \<open>router\<close>, \<open>get\<close> and \<open>post\<close> of the microrouter library,
  which is not among the sources. Section 6 gives the table (method, path to handler)
  and calls \<open>GET /*\<close> a fallback; it does not say how the table is searched. The
  search is the library's: a route matches a request of its method whose path fits its
  pattern, where \<open>*\<close> stands for any run of characters; the routes are tried in the
  order they were given to \<open>router\<close>, and the first that matches handles the request.
  Every handler of this module answers the request or throws, so no later route is tried
  after it.
\<close>

fun path_matches :: "string \<Rightarrow> string \<Rightarrow> bool" where
  "path_matches [] [] = True"
| "path_matches [] (d # ds) = False"
| "path_matches (c # cs) [] = (c = CHR ''*'' \<and> path_matches cs [])"
| "path_matches (c # cs) (d # ds) =
     (if c = CHR ''*'' then path_matches cs (d # ds) \<or> path_matches (c # cs) ds
      else c = d \<and> path_matches cs ds)"

definition route_matches :: "http_method \<Rightarrow> string \<Rightarrow> route \<Rightarrow> bool" where
  "route_matches m path r = (route_method r = m \<and> path_matches (route_path r) path)"

definition router :: "route list \<Rightarrow> http_method \<Rightarrow> string \<Rightarrow> handler option" where
  "router rs m path = map_option route_handler (find (route_matches m path) rs)"

section \<open>Notions used to state the properties\<close>

text \<open>A property read where the value is known not to be \<open>undefined\<close> or \<open>null\<close>.\<close>

definition prop_of :: "jsval \<Rightarrow> string \<Rightarrow> jsval" where
  "prop_of obj name = (case get_prop obj name of Inl _ \<Rightarrow> JUndefined | Inr v \<Rightarrow> v)"

text \<open>
  The idempotency key of an attempt that starts when \<open>n\<close> identifiers have been drawn,
  and the request object \<open>createPayment\<close> builds with it.
\<close>

definition key_for :: "env \<Rightarrow> jsval \<Rightarrow> nat \<Rightarrow> jsval" where
  "key_for e payload n =
     (if truthy (prop_of payload ''idempotencyKey'') then prop_of payload ''idempotencyKey''
      else JStr (nanoid_ids e n))"

definition request_for :: "env \<Rightarrow> jsval \<Rightarrow> nat \<Rightarrow> jsval" where
  "request_for e payload n =
     (case payment_object payload (key_for e payload n) of
        Inl _ \<Rightarrow> JUndefined
      | Inr payment \<Rightarrow> payment)"

text \<open>
  The calls the client has seen when attempt \<open>j + 1\<close> of a \<open>createPayment\<close> request that
  started in \<open>w\<close> makes its call, and the client's answer to that call.
\<close>

definition calls_before :: "env \<Rightarrow> jsval \<Rightarrow> world \<Rightarrow> nat \<Rightarrow> (api_op \<times> jsval) list" where
  "calls_before e payload w j =
     api_calls w @
     map (\<lambda>i. (PaymentsApi_createPayment, request_for e payload (ids_drawn w + i))) [0..<j]"

definition client_answer :: "env \<Rightarrow> jsval \<Rightarrow> world \<Rightarrow> nat \<Rightarrow> js_error + api_response" where
  "client_answer e payload w j =
     square e (calls_before e payload w j) PaymentsApi_createPayment
       (request_for e payload (ids_drawn w + j))"

definition raises_retryable :: "js_error + api_response \<Rightarrow> bool" where
  "raises_retryable answer =
     (case answer of Inl ex \<Rightarrow> \<not> instanceof_ApiError ex | Inr _ \<Rightarrow> False)"

text \<open>The attempt numbers the attempt functions logged, in order.\<close>

fun attempts_of :: "log_entry list \<Rightarrow> nat list" where
  "attempts_of [] = []"
| "attempts_of (Debug_attempt message attempt # es) = attempt # attempts_of es"
| "attempts_of (_ # es) = attempts_of es"

text \<open>The idempotency keys of a list of calls.\<close>

definition keys_of :: "(api_op \<times> jsval) list \<Rightarrow> jsval list" where
  "keys_of calls = map (\<lambda>c. prop_of (snd c) ''idempotencyKey'') calls"

text \<open>The calls made after the world \<open>w\<close>, up to \<open>w'\<close>.\<close>

definition new_calls :: "world \<Rightarrow> world \<Rightarrow> (api_op \<times> jsval) list" where
  "new_calls w w' = drop (length (api_calls w)) (api_calls w')"

text \<open>
  A call whose request has the fixed \<open>amountMoney\<close> and no \<open>amount\<close> property.
\<close>

definition amountMoney_fixed :: "api_op \<times> jsval \<Rightarrow> bool" where
  "amountMoney_fixed c =
     (get_prop (snd c) ''amountMoney'' =
        Inr (JObj [(''amount'', JStr ''100''), (''currency'', JStr ''USD'')]) \<and>
      get_prop (snd c) ''amount'' = Inr JUndefined)"

text \<open>
  The client's answer to the call an attempt of \<open>createPayment\<close> makes from the world
  \<open>v\<close>, and what the attempt function does with an answer.
\<close>

definition answer_at :: "env \<Rightarrow> jsval \<Rightarrow> world \<Rightarrow> js_error + api_response" where
  "answer_at e payload v =
     square e (api_calls v) PaymentsApi_createPayment (request_for e payload (ids_drawn v))"

definition attempt_result :: "js_error + api_response \<Rightarrow> attempt_outcome" where
  "attempt_result answer =
     (case answer of
        Inl ex \<Rightarrow> if instanceof_ApiError ex then Bailed ex else Thrown ex
      | Inr response \<Rightarrow>
          (case payment_body (result response) of
             Inl ex \<Rightarrow> if instanceof_ApiError ex then Bailed ex else Thrown ex
           | Inr body \<Rightarrow> Resolved))"

text \<open>
  The world \<open>v\<close> is one that \<open>j\<close> attempts of a \<open>createPayment\<close> request started in \<open>w\<close>
  lead to: each attempt made one call, and drew one identifier unless the payload
  brought a key.
\<close>

definition reached :: "env \<Rightarrow> jsval \<Rightarrow> world \<Rightarrow> nat \<Rightarrow> world \<Rightarrow> bool" where
  "reached e payload w j v =
     (api_calls v = calls_before e payload w j \<and>
      ids_drawn v =
        (if truthy (prop_of payload ''idempotencyKey'') then ids_drawn w else ids_drawn w + j))"

text \<open>The request object \<open>createCard\<close> builds in an attempt, as \<open>request_for\<close>.\<close>

definition card_request_for :: "env \<Rightarrow> jsval \<Rightarrow> nat \<Rightarrow> jsval" where
  "card_request_for e payload n =
     (case card_object payload of
        Inl _ \<Rightarrow> JUndefined
      | Inr cardObj \<Rightarrow>
          (case cardRequest_object payload cardObj (key_for e payload n) of
             Inl _ \<Rightarrow> JUndefined
           | Inr cardRequest \<Rightarrow> cardRequest))"

section \<open>Example requests\<close>

text \<open>
  Concrete collaborators and payloads, on which the results below are evaluated: the
  spec's example payload, a client that times out on its first call and then accepts, one
  that is down, one that rejects every request, and one that accepts at once.
\<close>

definition ex_world :: world where
  "ex_world = \<lparr>api_calls = [], ids_drawn = 0, sent = [], logged = []\<rparr>"

definition ex_payload :: jsval where
  "ex_payload = JObj [(''sourceId'', JStr ''src1''), (''locationId'', JStr ''loc1'')]"

definition ex_payload_amount :: jsval where
  "ex_payload_amount =
     JObj [(''sourceId'', JStr ''src1''), (''locationId'', JStr ''loc1''),
           (''amount'', JNum 5000)]"

definition ex_card_payload :: jsval where
  "ex_card_payload =
     JObj [(''expMonth'', JNum 12), (''expYear'', JNum 2030),
           (''cardHolderName'', JStr ''Ada Lovelace''), (''customerId'', JStr ''cust1''),
           (''sourceId'', JStr ''src1'')]"

definition ex_ids :: "nat \<Rightarrow> string" where
  "ex_ids n = (if n = 0 then ''V1StGXR8_Z5jdHi6B-myT'' else ''uQ27HkpN4pXw0ZEEeOb5C'')"

definition ex_accepted :: api_response where
  "ex_accepted =
     \<lparr>result = JObj [(''payment'',
          JObj [(''id'', JStr ''pay1''), (''status'', JStr ''COMPLETED''),
                (''receiptUrl'', JStr ''https://example.test/r/pay1''),
                (''orderId'', JStr ''ord1'')])],
      statusCode = 200\<rparr>"

definition client_flaky :: "(api_op \<times> jsval) list \<Rightarrow> api_op \<Rightarrow> jsval \<Rightarrow> js_error + api_response" where
  "client_flaky history op request =
     (if history = [] then Inl (Failure ''ETIMEDOUT'') else Inr ex_accepted)"

definition client_down :: "(api_op \<times> jsval) list \<Rightarrow> api_op \<Rightarrow> jsval \<Rightarrow> js_error + api_response" where
  "client_down history op request = Inl (Failure ''ECONNREFUSED'')"

definition client_rejects :: "(api_op \<times> jsval) list \<Rightarrow> api_op \<Rightarrow> jsval \<Rightarrow> js_error + api_response" where
  "client_rejects history op request =
     Inl (ApiError (JArr [JObj [(''code'', JStr ''CARD_DECLINED'')]]))"

definition client_accepts :: "(api_op \<times> jsval) list \<Rightarrow> api_op \<Rightarrow> jsval \<Rightarrow> js_error + api_response" where
  "client_accepts history op request = Inr ex_accepted"

text \<open>A client that accepts at once with a result that has no \<open>payment\<close>.\<close>

definition client_accepts_bare :: "(api_op \<times> jsval) list \<Rightarrow> api_op \<Rightarrow> jsval \<Rightarrow> js_error + api_response" where
  "client_accepts_bare history op request = Inr \<lparr>result = JObj [], statusCode = 200\<rparr>"

definition ex_env :: "((api_op \<times> jsval) list \<Rightarrow> api_op \<Rightarrow> jsval \<Rightarrow> js_error + api_response) \<Rightarrow> env" where
  "ex_env client =
     \<lparr>square = client, nanoid_ids = ex_ids, max_attempts = 3, ajv_extras = False\<rparr>"

definition ex_card_payload_full :: jsval where
  "ex_card_payload_full =
     JObj [(''expMonth'', JNum 12), (''expYear'', JNum 2030),
           (''cardHolderName'', JStr ''Ada Lovelace''), (''customerId'', JStr ''cust1''),
           (''idempotencyKey'', JStr ''order-42''), (''sourceId'', JStr ''src1''),
           (''verificationToken'', JStr ''verf1'')]"

section \<open>How one attempt and the retry loop behave\<close>

subsection \<open>One attempt of \<open>createPayment\<close> on an object payload\<close>

lemma resolve_square: "resolve ''square'' = Inr ()"
  by (simp add: resolve_def module_scope_def)

lemma request_for_obj:
  "payment_object (JObj props) (key_for e (JObj props) n) = Inr (request_for e (JObj props) n)"
  by (simp add: request_for_def payment_object_def)

lemma or_nanoid_key:
  "fst (or_nanoid e (prop_of payload ''idempotencyKey'') v) = key_for e payload (ids_drawn v)"
  by (simp add: or_nanoid_def key_for_def nanoid_def)

lemma or_nanoid_world:
  "snd (or_nanoid e given v) = (if truthy given then v else v\<lparr>ids_drawn := Suc (ids_drawn v)\<rparr>)"
  by (simp add: or_nanoid_def nanoid_def)

lemma attempts_of_append: "attempts_of (xs @ ys) = attempts_of xs @ attempts_of ys"
  by (induction xs rule: attempts_of.induct) simp_all

lemma createPayment_try_obj:
  "createPayment_try e (JObj props) attempt v =
     (let w1 = logger (Debug_attempt ''Creating payment'' attempt) v;
          k = or_nanoid e (prop_of (JObj props) ''idempotencyKey'') w1;
          c = call_api e PaymentsApi_createPayment (request_for e (JObj props) (ids_drawn v)) (snd k)
      in case fst c of
           Inl ex \<Rightarrow> (Inl ex, snd c)
         | Inr response \<Rightarrow>
             let w4 = logger (Info_result ''Payment succeeded!''
                        (result response) (statusCode response)) (snd c) in
             (case payment_body (result response) of
                Inl ex \<Rightarrow> (Inl ex, w4)
              | Inr body \<Rightarrow> (Inr (), send (statusCode response) body w4)))"
proof -
  have g: "get_prop (JObj props) ''idempotencyKey'' = Inr (prop_of (JObj props) ''idempotencyKey'')"
    by (simp add: prop_of_def)
  have d: "ids_drawn (logger (Debug_attempt ''Creating payment'' attempt) v) = ids_drawn v"
    by (simp add: logger_def)
  show ?thesis
    unfolding createPayment_try_def g Let_def
    by (simp add: or_nanoid_key d request_for_obj resolve_square)
qed

lemma attempt_calls:
  "api_calls (snd (createPayment_attempt e (JObj props) a v)) =
     api_calls v @ [(PaymentsApi_createPayment, request_for e (JObj props) (ids_drawn v))]"
  by (simp add: createPayment_attempt_def createPayment_try_obj Let_def call_api_def
      or_nanoid_world logger_def send_def split: sum.splits)

lemma attempt_drawn:
  "ids_drawn (snd (createPayment_attempt e (JObj props) a v)) =
     (if truthy (prop_of (JObj props) ''idempotencyKey'') then ids_drawn v else Suc (ids_drawn v))"
  by (simp add: createPayment_attempt_def createPayment_try_obj Let_def call_api_def
      or_nanoid_world logger_def send_def split: sum.splits)

lemma attempt_logged:
  "attempts_of (logged (snd (createPayment_attempt e (JObj props) a v))) =
     attempts_of (logged v) @ [a]"
  by (simp add: createPayment_attempt_def createPayment_try_obj Let_def call_api_def
      or_nanoid_world logger_def send_def attempts_of_append split: sum.splits)

lemma attempt_outcome:
  "fst (createPayment_attempt e (JObj props) a v) =
     (case answer_at e (JObj props) v of
        Inl ex \<Rightarrow> if instanceof_ApiError ex then Bailed ex else Thrown ex
      | Inr response \<Rightarrow>
          (case payment_body (result response) of
             Inl ex \<Rightarrow> if instanceof_ApiError ex then Bailed ex else Thrown ex
           | Inr body \<Rightarrow> Resolved))"
  by (simp add: createPayment_attempt_def createPayment_try_obj Let_def call_api_def answer_at_def
      or_nanoid_world logger_def send_def attempts_of_append split: sum.splits)

lemma attempt_sent:
  "sent (snd (createPayment_attempt e (JObj props) a v)) =
     (case answer_at e (JObj props) v of
        Inl ex \<Rightarrow> sent v
      | Inr response \<Rightarrow>
          (case payment_body (result response) of
             Inl ex \<Rightarrow> sent v
           | Inr body \<Rightarrow> sent v @ [(statusCode response, body)]))"
  by (simp add: createPayment_attempt_def createPayment_try_obj Let_def call_api_def answer_at_def
      or_nanoid_world logger_def send_def attempts_of_append split: sum.splits)


lemma request_for_reached:
  "reached e payload w j v \<Longrightarrow>
     request_for e payload (ids_drawn v) = request_for e payload (ids_drawn w + j)"
  by (simp add: reached_def request_for_def key_for_def)

lemma answer_at_reached:
  "reached e payload w j v \<Longrightarrow> answer_at e payload v = client_answer e payload w j"
  by (simp add: answer_at_def client_answer_def request_for_reached) (simp add: reached_def)

lemma reached_start: "reached e payload w 0 (logger entry w)"
  by (simp add: reached_def calls_before_def logger_def)

lemma reached_step:
  assumes "reached e (JObj props) w j v"
  shows "reached e (JObj props) w (Suc j) (snd (createPayment_attempt e (JObj props) a v))"
  using assms request_for_reached [OF assms]
  by (simp add: reached_def attempt_calls attempt_drawn calls_before_def)

lemma outcome_reached:
  "reached e (JObj props) w j v \<Longrightarrow>
     fst (createPayment_attempt e (JObj props) a v) =
       attempt_result (client_answer e (JObj props) w j)"
  by (simp add: attempt_outcome attempt_result_def answer_at_reached)

subsection \<open>The retry loop\<close>

lemma retry_from_Resolved:
  "fst (fn attempt w) = Resolved \<Longrightarrow>
     retry_from limit attempt fn w = (Inr (), snd (fn attempt w))"
  by (subst retry_from.simps) (simp add: Let_def)

lemma retry_from_Bailed:
  "fst (fn attempt w) = Bailed ex \<Longrightarrow>
     retry_from limit attempt fn w = (Inl ex, snd (fn attempt w))"
  by (subst retry_from.simps) (simp add: Let_def)

lemma retry_from_Thrown_last:
  "fst (fn attempt w) = Thrown ex \<Longrightarrow> \<not> attempt < limit \<Longrightarrow>
     retry_from limit attempt fn w = (Inl ex, snd (fn attempt w))"
  by (subst retry_from.simps) (simp add: Let_def)

lemma retry_from_Thrown_again:
  "fst (fn attempt w) = Thrown ex \<Longrightarrow> attempt < limit \<Longrightarrow>
     retry_from limit attempt fn w = retry_from limit (Suc attempt) fn (snd (fn attempt w))"
  by (subst retry_from.simps) (simp add: Let_def)

lemma retry_from_invariant:
  assumes "I attempt w"
    and "\<And>a v. I a v \<Longrightarrow> I (Suc a) (snd (fn a v))"
  shows "\<exists>n>attempt. I n (snd (retry_from limit attempt fn w))"
  using assms
proof (induction limit attempt fn w rule: retry_from.induct)
  case (1 limit attempt fn w)
  have next_ok: "I (Suc attempt) (snd (fn attempt w))"
    by (rule "1.prems"(2) [OF "1.prems"(1)])
  have stop: ?case if "retry_from limit attempt fn w = (r, snd (fn attempt w))" for r
  proof -
    have "attempt < Suc attempt" by simp
    moreover have "I (Suc attempt) (snd (retry_from limit attempt fn w))"
      unfolding that snd_conv by (rule next_ok)
    ultimately show ?thesis by blast
  qed
  show ?case
  proof (cases "fst (fn attempt w)")
    case Resolved
    show ?thesis by (rule stop [OF retry_from_Resolved [where fn = fn and attempt = attempt and w = w, OF Resolved]])
  next
    case (Bailed ex)
    show ?thesis by (rule stop [OF retry_from_Bailed [where fn = fn and attempt = attempt and w = w, OF Bailed]])
  next
    case (Thrown ex)
    show ?thesis
    proof (cases "attempt < limit")
      case True
      from "1.IH" [OF refl Thrown True next_ok "1.prems"(2)]
      obtain n where n: "Suc attempt < n"
        "I n (snd (retry_from limit (Suc attempt) fn (snd (fn attempt w))))"
        by blast
      from n(1) have "attempt < n" by simp
      moreover have "I n (snd (retry_from limit attempt fn w))"
        unfolding retry_from_Thrown_again [where fn = fn and attempt = attempt and w = w, OF Thrown True] by (rule n(2))
      ultimately show ?thesis by blast
    next
      case False
      show ?thesis by (rule stop [OF retry_from_Thrown_last [where fn = fn and attempt = attempt and w = w, OF Thrown False]])
    qed
  qed
qed

subsection \<open>\<open>createPayment\<close> on a valid payload\<close>

lemma valid_payment_obj:
  "validatePaymentPayload x payload \<Longrightarrow> \<exists>props. payload = JObj props"
  by (cases payload) (simp_all add: validatePaymentPayload_def)

lemma resolve_validatePaymentPayload: "resolve ''validatePaymentPayload'' = Inr ()"
  by (simp add: resolve_def module_scope_def)

lemma createPayment_valid:
  "validatePaymentPayload (ajv_extras e) payload \<Longrightarrow>
     createPayment e payload w =
       retry_from (max_attempts e) 1 (createPayment_attempt e payload)
         (logger (Debug_payload payload) w)"
  by (simp add: createPayment_def resolve_validatePaymentPayload retry_def)

lemma createPayment_calls:
  assumes "validatePaymentPayload (ajv_extras e) payload"
  shows "\<exists>m>0. reached e payload w m (snd (createPayment e payload w))"
proof -
  obtain props where obj: "payload = JObj props"
    using valid_payment_obj [OF assms] by blast
  define I where "I = (\<lambda>a v. 0 < a \<and> reached e payload w (a - 1) v)"
  have start: "I 1 (logger (Debug_payload payload) w)"
    by (simp add: I_def reached_start)
  have step: "I (Suc a) (snd (createPayment_attempt e payload a v))" if "I a v" for a v
  proof -
    from that have "0 < a" and "reached e (JObj props) w (a - 1) v"
      by (simp_all add: I_def obj)
    from reached_step [OF this(2), of a] \<open>0 < a\<close> show ?thesis
      by (simp add: I_def obj)
  qed
  from retry_from_invariant [of I 1 "logger (Debug_payload payload) w"
      "createPayment_attempt e payload" "max_attempts e", OF start step]
  obtain n where n: "1 < n"
    "I n (snd (retry_from (max_attempts e) 1 (createPayment_attempt e payload)
       (logger (Debug_payload payload) w)))"
    by blast
  from n(2) have "reached e payload w (n - 1) (snd (createPayment e payload w))"
    by (simp add: I_def createPayment_valid [OF assms])
  with n(1) show ?thesis by (intro exI [of _ "n - 1"]) simp
qed


lemma retryable_Thrown:
  "raises_retryable answer \<Longrightarrow> \<exists>ex. answer = Inl ex \<and> attempt_result answer = Thrown ex"
  by (cases answer) (simp_all add: raises_retryable_def attempt_result_def)

lemma sent_reached:
  "reached e (JObj props) w j v \<Longrightarrow>
     sent (snd (createPayment_attempt e (JObj props) a v)) =
       (case client_answer e (JObj props) w j of
          Inl ex \<Rightarrow> sent v
        | Inr response \<Rightarrow>
            (case payment_body (result response) of
               Inl ex \<Rightarrow> sent v
             | Inr body \<Rightarrow> sent v @ [(statusCode response, body)]))"
  by (simp add: attempt_sent answer_at_reached)

lemma retry_from_skip:
  assumes fails: "\<And>i. j \<le> i \<Longrightarrow> i < k \<Longrightarrow> raises_retryable (client_answer e (JObj props) w i)"
    and le: "j \<le> k" and lim: "k < limit"
    and start: "reached e (JObj props) w j v"
  shows "\<exists>v'. retry_from limit (Suc j) (createPayment_attempt e (JObj props)) v =
               retry_from limit (Suc k) (createPayment_attempt e (JObj props)) v' \<and>
             reached e (JObj props) w k v' \<and> sent v' = sent v \<and>
             attempts_of (logged v') = attempts_of (logged v) @ [Suc j..<Suc k]"
  using le fails lim
proof (induction k rule: dec_induct)
  case base
  show ?case using start by (intro exI [of _ v]) simp
next
  case (step n)
  from step.prems have "n < limit" by simp
  with step.IH step.prems(1) obtain v' where v':
    "retry_from limit (Suc j) (createPayment_attempt e (JObj props)) v =
       retry_from limit (Suc n) (createPayment_attempt e (JObj props)) v'"
    "reached e (JObj props) w n v'" "sent v' = sent v"
    "attempts_of (logged v') = attempts_of (logged v) @ [Suc j..<Suc n]"
    by (metis less_Suc_eq)
  let ?fn = "createPayment_attempt e (JObj props)"
  from step.prems(1) [of n] step.hyps(1) obtain ex where
    ex: "client_answer e (JObj props) w n = Inl ex"
      "attempt_result (client_answer e (JObj props) w n) = Thrown ex"
    using retryable_Thrown by blast
  have thrown: "fst (?fn (Suc n) v') = Thrown ex"
    by (simp add: outcome_reached [OF v'(2)] ex(2))
  have again: "retry_from limit (Suc n) ?fn v' = retry_from limit (Suc (Suc n)) ?fn (snd (?fn (Suc n) v'))"
    using step.prems(2) by (intro retry_from_Thrown_again [where ex = ex] thrown) simp
  have "sent (snd (?fn (Suc n) v')) = sent v"
    by (simp add: sent_reached [OF v'(2)] ex(1) v'(3))
  moreover have "attempts_of (logged (snd (?fn (Suc n) v'))) =
      attempts_of (logged v) @ [Suc j..<Suc (Suc n)]"
    using step.hyps(1) by (simp add: attempt_logged v'(4))
  ultimately show ?case
    using v'(1) again reached_step [OF v'(2), of "Suc n"]
    by (intro exI [of _ "snd (?fn (Suc n) v')"]) simp
qed


lemma key_of_request:
  "prop_of (request_for e (JObj props) n) ''idempotencyKey'' = key_for e (JObj props) n"
  by (simp add: request_for_def payment_object_def prop_of_def)

lemma amountMoney_of_request:
  "get_prop (request_for e (JObj props) n) ''amountMoney'' =
     Inr (JObj [(''amount'', JStr ''100''), (''currency'', JStr ''USD'')]) \<and>
   get_prop (request_for e (JObj props) n) ''amount'' = Inr JUndefined"
  by (simp add: request_for_def payment_object_def)

lemma new_calls_reached:
  "reached e payload w m w' \<Longrightarrow>
     new_calls w w' =
       map (\<lambda>i. (PaymentsApi_createPayment, request_for e payload (ids_drawn w + i))) [0..<m]"
  by (simp add: reached_def new_calls_def calls_before_def)

lemma client_answer_0:
  "client_answer e payload w 0 =
     square e (api_calls w) PaymentsApi_createPayment (request_for e payload (ids_drawn w))"
  by (simp add: client_answer_def calls_before_def)

lemma calls_before_1:
  "calls_before e payload w (Suc 0) =
     api_calls w @ [(PaymentsApi_createPayment, request_for e payload (ids_drawn w))]"
  by (simp add: calls_before_def)

lemma first_attempt:
  assumes "validatePaymentPayload (ajv_extras e) payload"
  shows "\<exists>props v. payload = JObj props \<and> v = logger (Debug_payload payload) w \<and>
           reached e payload w 0 v \<and>
           createPayment e payload w =
             retry_from (max_attempts e) (Suc 0) (createPayment_attempt e payload) v \<and>
           fst (createPayment_attempt e payload (Suc 0) v) =
             attempt_result (client_answer e payload w 0) \<and>
           reached e payload w (Suc 0) (snd (createPayment_attempt e payload (Suc 0) v)) \<and>
           attempts_of (logged (snd (createPayment_attempt e payload (Suc 0) v))) =
             attempts_of (logged w) @ [Suc 0] \<and>
           sent v = sent w"
proof -
  obtain props where obj: "payload = JObj props"
    using valid_payment_obj [OF assms] by blast
  have r0: "reached e (JObj props) w 0 (logger (Debug_payload payload) w)"
    by (rule reached_start)
  show ?thesis
    using createPayment_valid [OF assms, of w] outcome_reached [OF r0, of "Suc 0"]
      reached_step [OF r0, of "Suc 0"] r0
    by (simp add: obj attempt_logged) (simp add: logger_def attempts_of_append)
qed

lemma payment_body_ok:
  assumes "get_prop res ''payment'' = Inr pay" "pay \<noteq> JUndefined" "pay \<noteq> JNull"
  shows "payment_body res =
     Inr (JObj
       [(''success'', JBool True),
        (''payment'', JObj
           [(''id'', prop_of pay ''id''), (''status'', prop_of pay ''status''),
            (''receiptUrl'', prop_of pay ''receiptUrl''),
            (''orderId'', prop_of pay ''orderId'')])])"
  using assms by (cases pay) (simp_all add: payment_body_def get_path_def prop_of_def)

subsection \<open>One attempt of \<open>createCard\<close>, and the route table\<close>

lemma createCard_attempt_obj:
  "api_calls (snd (createCard_attempt e (JObj props) attempt v)) =
     api_calls v @ [(CardsApi_createCard, card_request_for e (JObj props) (ids_drawn v))] \<and>
   prop_of (card_request_for e (JObj props) (ids_drawn v)) ''idempotencyKey'' =
     key_for e (JObj props) (ids_drawn v) \<and>
   ids_drawn (snd (createCard_attempt e (JObj props) attempt v)) =
     (if truthy (prop_of (JObj props) ''idempotencyKey'') then ids_drawn v
      else Suc (ids_drawn v))"
  by (simp add: createCard_attempt_def createCard_try_def card_request_for_def card_object_def
      cardRequest_object_def resolve_square Let_def call_api_def or_nanoid_def nanoid_def
      logger_def send_def key_for_def prop_of_def split: sum.splits)

lemma literal_path_matches:
  "CHR ''*'' \<notin> set pat \<Longrightarrow> path_matches pat path = (path = pat)"
  by (induction pat path rule: path_matches.induct) auto

lemma listCards_unreachable: "router routes m path \<noteq> Some ListCards"
proof (cases "m = GET \<and> path_matches ''/*'' path")
  case True
  then show ?thesis
    by (simp add: router_def routes_def route_matches_def)
next
  case False
  have "\<not> path_matches ''/cards'' path" if "m = GET"
  proof
    assume "path_matches ''/cards'' path"
    then have "path = ''/cards''" by (simp add: literal_path_matches)
    then have "path_matches ''/*'' path" by simp
    with False that show False by simp
  qed
  then show ?thesis
    by (cases m) (auto simp: router_def routes_def route_matches_def)
qed

lemma createPayment_keys:
  assumes "validatePaymentPayload (ajv_extras e) payload"
  shows "\<exists>m>0. api_calls (snd (createPayment e payload w)) = calls_before e payload w m \<and>
           keys_of (new_calls w (snd (createPayment e payload w))) =
             map (\<lambda>j. key_for e payload (ids_drawn w + j)) [0..<m]"
proof -
  obtain props where obj: "payload = JObj props"
    using valid_payment_obj [OF assms] by blast
  from createPayment_calls [OF assms, of w] obtain m where m: "0 < m"
    "reached e payload w m (snd (createPayment e payload w))"
    by blast
  have "keys_of (new_calls w (snd (createPayment e payload w))) =
      map (\<lambda>j. key_for e payload (ids_drawn w + j)) [0..<m]"
    unfolding new_calls_reached [OF m(2)]
    by (simp add: keys_of_def obj key_of_request comp_def)
  with m show ?thesis by (auto simp: reached_def)
qed
section \<open>Evaluation of the examples\<close>

lemmas model_defs =
  createPayment_def createPayment_attempt_def createPayment_try_def
  createCard_def listCards_def searchCustomers_def
  payment_object_def payment_body_def get_path_def
  validatePaymentPayload_def validateCardPayload_def
  paymentSchema_def cardSchema_def required_ok_def optional_ok_def known_field_def
  resolve_def module_scope_def retry_def retry_from.simps
  logger_def nanoid_def or_nanoid_def call_api_def send_def
  Let_def

lemmas example_defs =
  ex_world_def ex_payload_def ex_payload_amount_def ex_card_payload_def
  ex_card_payload_full_def
  ex_ids_def ex_accepted_def ex_env_def
  client_flaky_def client_down_def client_rejects_def client_accepts_def
  client_accepts_bare_def

lemma ex_payload_valid: "validatePaymentPayload (ajv_extras (ex_env client)) ex_payload"
  by (simp add: model_defs example_defs)

lemma ex_payload_amount_valid:
  "validatePaymentPayload (ajv_extras (ex_env client)) ex_payload_amount"
  by (simp add: model_defs example_defs)

lemma ex_flaky_run:
  "createPayment (ex_env client_flaky) ex_payload ex_world =
     (Inr (),
      \<lparr>api_calls =
         [(PaymentsApi_createPayment,
           JObj [(''idempotencyKey'', JStr ''V1StGXR8_Z5jdHi6B-myT''),
                 (''locationId'', JStr ''loc1''), (''sourceId'', JStr ''src1''),
                 (''amountMoney'',
                  JObj [(''amount'', JStr ''100''), (''currency'', JStr ''USD'')])]),
          (PaymentsApi_createPayment,
           JObj [(''idempotencyKey'', JStr ''uQ27HkpN4pXw0ZEEeOb5C''),
                 (''locationId'', JStr ''loc1''), (''sourceId'', JStr ''src1''),
                 (''amountMoney'',
                  JObj [(''amount'', JStr ''100''), (''currency'', JStr ''USD'')])])],
       ids_drawn = 2,
       sent =
         [(200,
           JObj [(''success'', JBool True),
                 (''payment'',
                  JObj [(''id'', JStr ''pay1''), (''status'', JStr ''COMPLETED''),
                        (''receiptUrl'', JStr ''https://example.test/r/pay1''),
                        (''orderId'', JStr ''ord1'')])])],
       logged =
         [Debug_payload ex_payload,
          Debug_attempt ''Creating payment'' 1,
          Error_attempt ''Error creating payment on attempt'' 1 (Failure ''ETIMEDOUT''),
          Debug_attempt ''Creating payment'' 2,
          Info_result ''Payment succeeded!'' (result ex_accepted) 200]\<rparr>)"
  by (simp add: model_defs example_defs)

section \<open>The claims\<close>

text \<open>
  C1 (as amended). The idempotency key of a create-payment request is computed inside
  each attempt, not once before the retry loop. For a valid payload the handler makes at
  least one call, and its j-th call carries the payload's \<open>idempotencyKey\<close> when the
  payload brings a non-empty one, and otherwise the identifier \<open>nanoid\<close> returned
  during that attempt, which is the j-th one drawn for the request. So the key is the same
  on every attempt when the payload supplies it, and is drawn afresh on every attempt
  when it does not. The attempt function of \<open>createCard\<close> computes its key the same
  way: each run of it on an object payload makes one call, whose key is the payload's or
  the identifier drawn in that run.
\<close>

theorem createPayment_key_per_attempt:
  assumes "validatePaymentPayload (ajv_extras e) payload"
  shows "(\<exists>m>0. api_calls (snd (createPayment e payload w)) = calls_before e payload w m \<and>
            keys_of (new_calls w (snd (createPayment e payload w))) =
              map (\<lambda>j. key_for e payload (ids_drawn w + j)) [0..<m]) \<and>
         api_calls (snd (createCard_attempt e (JObj props) attempt v)) =
           api_calls v @
             [(CardsApi_createCard, card_request_for e (JObj props) (ids_drawn v))] \<and>
         prop_of (card_request_for e (JObj props) (ids_drawn v)) ''idempotencyKey'' =
           key_for e (JObj props) (ids_drawn v) \<and>
         ids_drawn (snd (createCard_attempt e (JObj props) attempt v)) =
           (if truthy (prop_of (JObj props) ''idempotencyKey'') then ids_drawn v
            else Suc (ids_drawn v))"
  using createPayment_keys [OF assms, of w] createCard_attempt_obj [of e props attempt v]
  by blast

theorem createPayment_key_per_attempt_witness:
  "validatePaymentPayload (ajv_extras (ex_env client_flaky)) ex_payload \<and>
   (\<exists>m>0. api_calls (snd (createPayment (ex_env client_flaky) ex_payload ex_world)) =
             calls_before (ex_env client_flaky) ex_payload ex_world m \<and>
           keys_of (new_calls ex_world
               (snd (createPayment (ex_env client_flaky) ex_payload ex_world))) =
             map (\<lambda>j. key_for (ex_env client_flaky) ex_payload (ids_drawn ex_world + j))
               [0..<m]) \<and>
   ids_drawn (snd (createCard_attempt (ex_env client_flaky) (JObj []) 1 ex_world)) = 1"
  using createPayment_key_per_attempt [where e = "ex_env client_flaky"
      and payload = ex_payload and w = ex_world and props = "[]" and attempt = 1
      and v = ex_world, OF ex_payload_valid]
    ex_payload_valid [of client_flaky]
  by (simp add: prop_of_def ex_world_def)

text \<open>
  The claim as stated fails: the spec's example payload has no \<open>idempotencyKey\<close>, the
  client times out on the first attempt and accepts the second, and the two calls carry
  two different keys.
\<close>

theorem createPayment_key_regenerated:
  "validatePaymentPayload False ex_payload \<and>
   get_prop ex_payload ''idempotencyKey'' = Inr JUndefined \<and>
   fst (createPayment (ex_env client_flaky) ex_payload ex_world) = Inr () \<and>
   keys_of (api_calls (snd (createPayment (ex_env client_flaky) ex_payload ex_world))) =
     [JStr ''V1StGXR8_Z5jdHi6B-myT'', JStr ''uQ27HkpN4pXw0ZEEeOb5C''] \<and>
   JStr ''V1StGXR8_Z5jdHi6B-myT'' \<noteq> JStr ''uQ27HkpN4pXw0ZEEeOb5C''"
  unfolding ex_flaky_run
  by (simp add: keys_of_def prop_of_def)
    (simp add: model_defs example_defs)

text \<open>
  C3. For every valid create-payment payload, whatever it says about \<open>amount\<close>, the
  handler calls the client at least once and every request it hands to the client has
  \<open>amountMoney\<close> equal to \<open>{amount: "100", currency: "USD"}\<close> and no \<open>amount\<close>
  property: the payload's amount is not forwarded.
\<close>

theorem createPayment_amountMoney_fixed:
  assumes "validatePaymentPayload (ajv_extras e) payload"
  shows "new_calls w (snd (createPayment e payload w)) \<noteq> [] \<and>
         list_all amountMoney_fixed (new_calls w (snd (createPayment e payload w)))"
proof -
  obtain props where obj: "payload = JObj props"
    using valid_payment_obj [OF assms] by blast
  from createPayment_calls [OF assms, of w] obtain m where m: "0 < m"
    "reached e payload w m (snd (createPayment e payload w))"
    by blast
  show ?thesis
    unfolding new_calls_reached [OF m(2)] using m(1)
    by (simp add: list_all_iff amountMoney_fixed_def obj amountMoney_of_request)
qed

theorem createPayment_amountMoney_fixed_witness:
  "validatePaymentPayload (ajv_extras (ex_env client_flaky)) ex_payload_amount \<and>
   new_calls ex_world (snd (createPayment (ex_env client_flaky) ex_payload_amount ex_world))
     \<noteq> [] \<and>
   list_all amountMoney_fixed
     (new_calls ex_world (snd (createPayment (ex_env client_flaky) ex_payload_amount ex_world)))"
  using createPayment_amountMoney_fixed [where e = "ex_env client_flaky"
      and payload = ex_payload_amount and w = ex_world, OF ex_payload_amount_valid]
    ex_payload_amount_valid [of client_flaky]
  by simp

text \<open>
  C6. For every valid create-payment payload, if the client answers the call of attempt 1
  by throwing an ApiError, the handler rejects with that error, exactly one call has been
  made, only attempt 1 has run, and no response has been sent.
\<close>

theorem createPayment_ApiError_bails:
  assumes "validatePaymentPayload (ajv_extras e) payload"
    and "square e (api_calls w) PaymentsApi_createPayment
           (request_for e payload (ids_drawn w)) = Inl ex"
    and "instanceof_ApiError ex"
  shows "fst (createPayment e payload w) = Inl ex \<and>
         api_calls (snd (createPayment e payload w)) =
           api_calls w @ [(PaymentsApi_createPayment, request_for e payload (ids_drawn w))] \<and>
         attempts_of (logged (snd (createPayment e payload w))) = attempts_of (logged w) @ [Suc 0] \<and>
         sent (snd (createPayment e payload w)) = sent w"
proof -
  from first_attempt [OF assms(1), of w] obtain props v where f:
    "payload = JObj props" "v = logger (Debug_payload payload) w"
    "reached e payload w 0 v"
    "createPayment e payload w = retry_from (max_attempts e) (Suc 0) (createPayment_attempt e payload) v"
    "fst (createPayment_attempt e payload (Suc 0) v) = attempt_result (client_answer e payload w 0)"
    "reached e payload w (Suc 0) (snd (createPayment_attempt e payload (Suc 0) v))"
    "attempts_of (logged (snd (createPayment_attempt e payload (Suc 0) v))) = attempts_of (logged w) @ [Suc 0]"
    "sent v = sent w"
    by blast
  have a: "client_answer e payload w 0 = Inl ex"
    by (simp add: client_answer_0 assms(2))
  have "fst (createPayment_attempt e payload (Suc 0) v) = Bailed ex"
    by (simp add: f(5) a attempt_result_def assms(3))
  from retry_from_Bailed [where fn = "createPayment_attempt e payload", OF this]
  have run: "createPayment e payload w = (Inl ex, snd (createPayment_attempt e payload (Suc 0) v))"
    by (simp add: f(4))
  have "sent (snd (createPayment_attempt e payload (Suc 0) v)) = sent w"
    using sent_reached [of e props w 0 v "Suc 0"] f(3) by (simp add: f(1) [symmetric] a f(8))
  then show ?thesis
    using f(6) f(7) by (simp add: run reached_def calls_before_1)
qed

theorem createPayment_ApiError_bails_witness:
  "fst (createPayment (ex_env client_rejects) ex_payload ex_world) =
     Inl (ApiError (JArr [JObj [(''code'', JStr ''CARD_DECLINED'')]])) \<and>
   api_calls (snd (createPayment (ex_env client_rejects) ex_payload ex_world)) =
     api_calls ex_world @
       [(PaymentsApi_createPayment,
         request_for (ex_env client_rejects) ex_payload (ids_drawn ex_world))] \<and>
   attempts_of (logged (snd (createPayment (ex_env client_rejects) ex_payload ex_world))) =
     attempts_of (logged ex_world) @ [1] \<and>
   sent (snd (createPayment (ex_env client_rejects) ex_payload ex_world)) = sent ex_world"
  using createPayment_ApiError_bails [where e = "ex_env client_rejects"
      and payload = ex_payload and w = ex_world
      and ex = "ApiError (JArr [JObj [(''code'', JStr ''CARD_DECLINED'')]])",
      OF ex_payload_valid]
  by (simp add: ex_env_def client_rejects_def)

text \<open>
  C7. For every valid create-payment payload and an attempt limit of at least one, if the
  client answers the call of every attempt up to the limit by throwing an error that is
  not an ApiError, the handler makes exactly as many calls as the limit, the attempt
  function is run with the attempt numbers 1, 2, ... up to the limit, the handler rejects
  with the error of the last call, and no response is sent.
\<close>

theorem createPayment_retries_exhausted:
  assumes "validatePaymentPayload (ajv_extras e) payload"
    and "0 < max_attempts e"
    and "\<forall>j<max_attempts e. raises_retryable (client_answer e payload w j)"
  shows "api_calls (snd (createPayment e payload w)) =
           calls_before e payload w (max_attempts e) \<and>
         length (new_calls w (snd (createPayment e payload w))) = max_attempts e \<and>
         attempts_of (logged (snd (createPayment e payload w))) =
           attempts_of (logged w) @ [1..<Suc (max_attempts e)] \<and>
         (\<exists>ex. client_answer e payload w (max_attempts e - 1) = Inl ex \<and>
               fst (createPayment e payload w) = Inl ex) \<and>
         sent (snd (createPayment e payload w)) = sent w"
proof -
  obtain props where obj: "payload = JObj props"
    using valid_payment_obj [OF assms(1)] by blast
  define limit where "limit = max_attempts e"
  define k where "k = limit - 1"
  define v0 where "v0 = logger (Debug_payload payload) w"
  let ?fn = "createPayment_attempt e (JObj props)"
  have k: "k < limit" "Suc k = limit"
    using assms(2) by (simp_all add: k_def limit_def)
  have fails: "raises_retryable (client_answer e (JObj props) w i)" if "i < limit" for i
    using assms(3) that by (simp add: limit_def obj)
  have r0: "reached e (JObj props) w 0 v0"
    unfolding v0_def by (rule reached_start)
  from retry_from_skip [where j = 0 and k = k and limit = limit, OF _ _ k(1) r0] fails k(1)
  obtain v' where v':
    "retry_from limit (Suc 0) ?fn v0 = retry_from limit (Suc k) ?fn v'"
    "reached e (JObj props) w k v'" "sent v' = sent v0"
    "attempts_of (logged v') = attempts_of (logged v0) @ [Suc 0..<Suc k]"
    by (metis less_trans le0)
  from retryable_Thrown [OF fails [OF k(1)]] obtain ex where
    ex: "client_answer e (JObj props) w k = Inl ex"
      "attempt_result (client_answer e (JObj props) w k) = Thrown ex"
    by blast
  have thrown: "fst (?fn (Suc k) v') = Thrown ex"
    by (simp add: outcome_reached [OF v'(2)] ex(2))
  have last: "retry_from limit (Suc k) ?fn v' = (Inl ex, snd (?fn (Suc k) v'))"
    using k(2) by (intro retry_from_Thrown_last thrown) simp
  have run: "createPayment e payload w = (Inl ex, snd (?fn (Suc k) v'))"
    using createPayment_valid [OF assms(1), of w] v'(1) last
    by (simp add: obj limit_def v0_def)
  have fin: "reached e (JObj props) w limit (snd (?fn (Suc k) v'))"
    using reached_step [OF v'(2), of "Suc k"] k(2) by simp
  have s: "sent (snd (?fn (Suc k) v')) = sent w"
    by (simp add: sent_reached [OF v'(2)] ex(1) v'(3) v0_def logger_def)
  have l: "attempts_of (logged (snd (?fn (Suc k) v'))) =
      attempts_of (logged w) @ [1..<Suc limit]"
    using k(2) by (simp add: attempt_logged v'(4) v0_def logger_def attempts_of_append)
  have n: "length (new_calls w (snd (?fn (Suc k) v'))) = limit"
    using fin by (simp add: new_calls_reached obj)
  show ?thesis
    unfolding run using fin s l n ex(1) k(2)
    by (simp add: reached_def obj limit_def [symmetric] k_def)
qed

theorem createPayment_retries_exhausted_witness:
  "0 < max_attempts (ex_env client_down) \<and>
   api_calls (snd (createPayment (ex_env client_down) ex_payload ex_world)) =
     calls_before (ex_env client_down) ex_payload ex_world 3 \<and>
   length (new_calls ex_world (snd (createPayment (ex_env client_down) ex_payload ex_world))) = 3 \<and>
   attempts_of (logged (snd (createPayment (ex_env client_down) ex_payload ex_world))) =
     [1, 2, 3] \<and>
   fst (createPayment (ex_env client_down) ex_payload ex_world) =
     Inl (Failure ''ECONNREFUSED'') \<and>
   sent (snd (createPayment (ex_env client_down) ex_payload ex_world)) = []"
proof -
  have limit: "max_attempts (ex_env client_down) = 3"
    by (simp add: ex_env_def)
  have down: "\<forall>j<max_attempts (ex_env client_down).
      raises_retryable (client_answer (ex_env client_down) ex_payload ex_world j)"
    by (simp add: raises_retryable_def client_answer_def ex_env_def client_down_def)
  have upt: "[1..<Suc 3] = [1, 2, 3::nat]"
    by (simp add: upt_rec)
  from createPayment_retries_exhausted [where e = "ex_env client_down"
      and payload = ex_payload and w = ex_world, OF ex_payload_valid _ down]
  show ?thesis
    unfolding limit upt
    by (simp add: client_answer_def) (simp add: ex_env_def client_down_def ex_world_def)
qed

text \<open>
  C9 (as amended). For every valid create-payment payload, if the client answers the
  call of attempt 1 with \<open>{result, statusCode}\<close> and \<open>result.payment\<close> is neither
  \<open>undefined\<close> nor \<open>null\<close>, the handler resolves after exactly one call and sends
  one response, with status \<open>statusCode\<close> and body
  \<open>{success: true, payment: {id, status, receiptUrl, orderId}}\<close> whose four fields
  are those of \<open>result.payment\<close>.
\<close>

theorem createPayment_first_attempt_success:
  assumes "validatePaymentPayload (ajv_extras e) payload"
    and "square e (api_calls w) PaymentsApi_createPayment
           (request_for e payload (ids_drawn w)) = Inr response"
    and "get_prop (result response) ''payment'' = Inr pay"
    and "pay \<noteq> JUndefined" and "pay \<noteq> JNull"
  shows "fst (createPayment e payload w) = Inr () \<and>
         api_calls (snd (createPayment e payload w)) =
           api_calls w @ [(PaymentsApi_createPayment, request_for e payload (ids_drawn w))] \<and>
         sent (snd (createPayment e payload w)) =
           sent w @
           [(statusCode response,
             JObj
               [(''success'', JBool True),
                (''payment'', JObj
                   [(''id'', prop_of pay ''id''), (''status'', prop_of pay ''status''),
                    (''receiptUrl'', prop_of pay ''receiptUrl''),
                    (''orderId'', prop_of pay ''orderId'')])])]"
proof -
  from first_attempt [OF assms(1), of w] obtain props v where f:
    "payload = JObj props" "v = logger (Debug_payload payload) w"
    "reached e payload w 0 v"
    "createPayment e payload w =
       retry_from (max_attempts e) (Suc 0) (createPayment_attempt e payload) v"
    "fst (createPayment_attempt e payload (Suc 0) v) =
       attempt_result (client_answer e payload w 0)"
    "reached e payload w (Suc 0) (snd (createPayment_attempt e payload (Suc 0) v))"
    "attempts_of (logged (snd (createPayment_attempt e payload (Suc 0) v))) =
       attempts_of (logged w) @ [Suc 0]"
    "sent v = sent w"
    by blast
  note body = payment_body_ok [OF assms(3-5)]
  have a: "client_answer e payload w 0 = Inr response"
    by (simp add: client_answer_0 assms(2))
  have "fst (createPayment_attempt e payload (Suc 0) v) = Resolved"
    by (simp add: f(5) a attempt_result_def body)
  from retry_from_Resolved [where fn = "createPayment_attempt e payload", OF this]
  have run: "createPayment e payload w = (Inr (), snd (createPayment_attempt e payload (Suc 0) v))"
    by (simp add: f(4))
  have "sent (snd (createPayment_attempt e payload (Suc 0) v)) =
      sent w @ [(statusCode response, the_body)]" if "payment_body (result response) = Inr the_body" for the_body
    using sent_reached [of e props w 0 v "Suc 0"] f(3) that
    by (simp add: f(1) [symmetric] a f(8))
  from this [OF body] show ?thesis
    using f(6) by (simp add: run reached_def calls_before_1)
qed

theorem createPayment_first_attempt_success_witness:
  "fst (createPayment (ex_env client_accepts) ex_payload ex_world) = Inr () \<and>
   api_calls (snd (createPayment (ex_env client_accepts) ex_payload ex_world)) =
     [(PaymentsApi_createPayment, request_for (ex_env client_accepts) ex_payload 0)] \<and>
   sent (snd (createPayment (ex_env client_accepts) ex_payload ex_world)) =
     [(200,
       JObj [(''success'', JBool True),
             (''payment'',
              JObj [(''id'', JStr ''pay1''), (''status'', JStr ''COMPLETED''),
                    (''receiptUrl'', JStr ''https://example.test/r/pay1''),
                    (''orderId'', JStr ''ord1'')])])]"
  using createPayment_first_attempt_success [where e = "ex_env client_accepts"
      and payload = ex_payload and w = ex_world and response = ex_accepted
      and pay = "JObj [(''id'', JStr ''pay1''), (''status'', JStr ''COMPLETED''),
                (''receiptUrl'', JStr ''https://example.test/r/pay1''),
                (''orderId'', JStr ''ord1'')]",
      OF ex_payload_valid]
  by (simp add: ex_env_def client_accepts_def ex_accepted_def ex_world_def prop_of_def)

text \<open>
  The claim as stated fails, without the condition on \<open>result.payment\<close>: when the
  client accepts the first call with a result that has no \<open>payment\<close>, reading
  \<open>result.payment.id\<close> throws a TypeError inside the \<open>try\<close>, the \<open>catch\<close> block
  throws it again for a retry, and the handler makes a call on every attempt up to the
  limit, each with a key drawn in that attempt, sends nothing and rejects.
\<close>

theorem createPayment_success_without_payment_retried:
  "validatePaymentPayload (ajv_extras (ex_env client_accepts_bare)) ex_payload \<and>
   square (ex_env client_accepts_bare) (api_calls ex_world) PaymentsApi_createPayment
     (request_for (ex_env client_accepts_bare) ex_payload (ids_drawn ex_world)) =
     Inr \<lparr>result = JObj [], statusCode = 200\<rparr> \<and>
   fst (createPayment (ex_env client_accepts_bare) ex_payload ex_world) =
     Inl (TypeError ''id'') \<and>
   length (api_calls (snd (createPayment (ex_env client_accepts_bare) ex_payload ex_world))) =
     3 \<and>
   keys_of (api_calls (snd (createPayment (ex_env client_accepts_bare) ex_payload ex_world))) =
     [JStr ''V1StGXR8_Z5jdHi6B-myT'', JStr ''uQ27HkpN4pXw0ZEEeOb5C'',
      JStr ''uQ27HkpN4pXw0ZEEeOb5C''] \<and>
   sent (snd (createPayment (ex_env client_accepts_bare) ex_payload ex_world)) = []"
  by (simp add: model_defs example_defs keys_of_def prop_of_def)

text \<open>
  C2. The module binds \<open>validatePaymentPayload\<close> and none of \<open>validateCardPayload\<close>,
  \<open>validateListCardsPayload\<close>, \<open>validateSearchCustomerPayload\<close>. So for every payload,
  valid or not, \<open>createCard\<close>, \<open>listCards\<close> and \<open>searchCustomers\<close> reject with a
  ReferenceError naming their validator, having only logged the payload: they never
  reject with the 400 error and never call the client. \<open>createPayment\<close> does reach its
  validation branch: it rejects an invalid payload with the 400 error.
\<close>

theorem unbound_validators_raise:
  "resolve ''validatePaymentPayload'' = Inr () \<and>
   createCard e payload w =
     (Inl (ReferenceError ''validateCardPayload''), logger (Debug_payload payload) w) \<and>
   listCards e payload w =
     (Inl (ReferenceError ''validateListCardsPayload''), logger (Debug_payload payload) w) \<and>
   searchCustomers e payload w =
     (Inl (ReferenceError ''validateSearchCustomerPayload''),
      logger (Debug_payload payload) w) \<and>
   api_calls (snd (createCard e payload w)) = api_calls w \<and>
   api_calls (snd (listCards e payload w)) = api_calls w \<and>
   api_calls (snd (searchCustomers e payload w)) = api_calls w \<and>
   (\<not> validatePaymentPayload (ajv_extras e) payload \<longrightarrow>
      createPayment e payload w =
        (Inl (HttpError 400 ''Bad Request''), logger (Debug_payload payload) w))"
  by (simp add: createCard_def listCards_def searchCustomers_def createPayment_def
      resolve_def module_scope_def logger_def)

theorem unbound_validators_raise_witness:
  "\<not> validatePaymentPayload (ajv_extras (ex_env client_accepts)) (JObj []) \<and>
   createPayment (ex_env client_accepts) (JObj []) ex_world =
     (Inl (HttpError 400 ''Bad Request''), logger (Debug_payload (JObj [])) ex_world) \<and>
   createCard (ex_env client_accepts) ex_card_payload_full ex_world =
     (Inl (ReferenceError ''validateCardPayload''),
      logger (Debug_payload ex_card_payload_full) ex_world) \<and>
   validateCardPayload (ajv_extras (ex_env client_accepts)) ex_card_payload_full"
proof -
  have invalid: "\<not> validatePaymentPayload (ajv_extras (ex_env client_accepts)) (JObj [])"
    by (simp add: validatePaymentPayload_def paymentSchema_def required_ok_def)
  have valid: "validateCardPayload (ajv_extras (ex_env client_accepts)) ex_card_payload_full"
    by (simp add: model_defs example_defs)
  from unbound_validators_raise [of "ex_env client_accepts" ex_card_payload_full ex_world]
    unbound_validators_raise [of "ex_env client_accepts" "JObj []" ex_world]
  show ?thesis using invalid valid by simp
qed

text \<open>
  C4. The claim holds for \<open>createPayment\<close> and fails for the three other handlers, whose
  validators are not imported: on the empty object, which the card validator rejects,
  \<open>createCard\<close> rejects with a ReferenceError and not with the 400 error.
\<close>

theorem createCard_invalid_payload_not_400:
  "validateCardPayload (ajv_extras (ex_env client_accepts)) (JObj []) = False \<and>
   fst (createCard (ex_env client_accepts) (JObj []) ex_world) =
     Inl (ReferenceError ''validateCardPayload'') \<and>
   fst (createPayment (ex_env client_accepts) (JObj []) ex_world) =
     Inl (HttpError 400 ''Bad Request'')"
  by (simp add: model_defs example_defs)

text \<open>
  C5. \<open>client\<close> is not bound in the module (the payments client is bound as \<open>square\<close>).
  So every run of the attempt functions of \<open>listCards\<close> and \<open>searchCustomers\<close>, whatever
  the payload, the attempt number and the world, throws a ReferenceError naming
  \<open>client\<close>, which is not an ApiError and is therefore thrown again for a retry; no
  call is made and no response is sent.
\<close>

theorem unbound_client_attempts_throw:
  "resolve ''square'' = Inr () \<and>
   resolve ''client'' = Inl (ReferenceError ''client'') \<and>
   \<not> instanceof_ApiError (ReferenceError ''client'') \<and>
   fst (listCards_attempt e payload attempt w) = Thrown (ReferenceError ''client'') \<and>
   fst (searchCustomers_attempt e payload attempt w) = Thrown (ReferenceError ''client'') \<and>
   api_calls (snd (listCards_attempt e payload attempt w)) = api_calls w \<and>
   api_calls (snd (searchCustomers_attempt e payload attempt w)) = api_calls w \<and>
   sent (snd (listCards_attempt e payload attempt w)) = sent w \<and>
   sent (snd (searchCustomers_attempt e payload attempt w)) = sent w"
  by (simp add: listCards_attempt_def listCards_try_def searchCustomers_attempt_def
      searchCustomers_try_def resolve_def module_scope_def logger_def)

text \<open>
  C8. The route table lists \<open>get('/*', serveStatic)\<close> before \<open>get('/cards', listCards)\<close>,
  and the first matching route handles a request: \<open>GET /cards\<close> goes to the static
  asset server, not to the list-cards handler, which no request reaches.
\<close>

theorem get_cards_served_static:
  "router routes GET ''/cards'' = Some ServeStatic \<and>
   router routes m path \<noteq> Some ListCards"
  using listCards_unreachable [of m path]
  by (simp add: router_def routes_def route_matches_def)

text \<open>
  C10. The card schema lists \<open>idempotencyKey\<close> and \<open>verificationToken\<close> among its
  required properties: a payload with the five other fields, all well typed, is rejected,
  and accepted once the two are added.
\<close>

theorem cardSchema_requires_key_and_token:
  "validateCardPayload True ex_card_payload = False \<and>
   validateCardPayload False ex_card_payload = False \<and>
   validateCardPayload True ex_card_payload_full = True \<and>
   validateCardPayload False ex_card_payload_full = True"
  by (simp add: model_defs example_defs)

end
